theory Spec2Isabelle
  imports Main "HOL-Library.Sublist" "HOL-Library.Word"
begin

section \<open>The offer entity (offers/offer.go)\<close>

record Offer =
  ID :: string
  Title :: string
  Price :: string
  Currency :: string
  ImageURL :: string
  Description :: string
  MerchantURL :: string

section \<open>The offers table and the prepared statements (offers/config.go, offers/db_mysql.go)\<close>

text \<open>
  A row of the table created by \<open>createTableStatements\<close>: the primary key \<open>id\<close> (here
  \<open>rid\<close>) is the only key of the table, \<open>offerId\<close> is NOT NULL and carries no unique
  constraint, the six display columns are nullable, and \<open>updated\<close> is a NOT NULL boolean
  whose default is 1.
\<close>

record row =
  rid :: nat
  offerId :: string
  title :: "string option"
  price :: "string option"
  currency :: "string option"
  imageUrl :: "string option"
  description :: "string option"
  merchantUrl :: "string option"
  updated :: bool

text \<open>The five statements that \<open>newMySQLDB\<close> prepares, named after the fields of \<open>mysqlDB\<close>.\<close>

datatype stmt = db_list | db_get | db_insert | db_update | db_delete

text \<open>The statement texts of the source, with runs of white space written as one blank.\<close>

definition listStatement :: string where
  "listStatement = ''SELECT * FROM offers limit 50''"

definition getStatement :: string where
  "getStatement = ''SELECT * FROM offers WHERE offerId = ?''"

definition insertStatement :: string where
  "insertStatement = '' INSERT INTO offers ( offerId, title, price, currency, imageUrl, description, merchantUrl ) VALUES (?, ?, ?, ?, ?, ?, ?)''"

definition deleteStatement :: string where
  "deleteStatement = ''DELETE FROM offers WHERE updated = false''"

definition updateStatement :: string where
  "updateStatement = '' UPDATE offers SET offerId=?, title=?, price=?, currency=?, imageUrl=?, description=?, merchantUrl=?, updated = true WHERE id = ?''"

fun stmtText :: "stmt \<Rightarrow> string" where
  "stmtText db_list = listStatement"
| "stmtText db_get = getStatement"
| "stmtText db_insert = insertStatement"
| "stmtText db_update = updateStatement"
| "stmtText db_delete = deleteStatement"

text \<open>
  \<open>NumInput\<close> of a prepared statement is the number of its placeholders; none of the five
  texts has a question mark inside a quoted literal.
\<close>

definition NumInput :: "stmt \<Rightarrow> nat" where
  "NumInput s = length (filter (\<lambda>c. c = CHR ''?'') (stmtText s))"

text \<open>
  The state outside the process: the rows of the table in primary-key order, the next
  AUTO_INCREMENT value, the outcomes the server will give to the coming statement
  executions (\<open>True\<close>: that execution is refused, whether by a transport fault or by
  the server; an exhausted schedule refuses nothing), and the log of what the process
  sent out so far, statements that reached the server and requests to the upstream
  catalog, most recent last. A refused statement has no effect on the rows.
\<close>

datatype apicall =
    AuthinfoCall
  | AccountsGetCall "64 word"
  | AccountsListCall "64 word"
  | ProductsListCall "64 word"

datatype event = Exec stmt | Call apicall

record world =
  rows :: "row list"
  nextId :: nat
  faults :: "bool list"
  trace :: "event list"

datatype sqlval = SqlStr string | SqlInt nat

datatype dberror =
    ArgCount nat nat    \<comment> \<open>sql: expected %d arguments, got %d\<close>
  | BackendFault        \<comment> \<open>the execution was refused\<close>
  | BadArgs             \<comment> \<open>arguments of the wrong shape for the statement\<close>

datatype error =
    CouldNotExecute dberror       \<comment> \<open>mysql: could not execute statement: %v\<close>
  | ExpectedOneRow nat            \<comment> \<open>mysql: expected 1 row affected, got %d\<close>
  | UnassignedID                  \<comment> \<open>mysql: offer with unassigned ID passed into updateOffer\<close>
  | NoOfferWithId string          \<comment> \<open>mysql: could not find offer with id %s\<close>
  | CouldNotGet dberror           \<comment> \<open>mysql: could not get offer: %v\<close>
  | NoOfferWithDescription string \<comment> \<open>mysql: could not find offer with description %s\<close>
  | CouldNotDelete dberror        \<comment> \<open>mysql: could not execute delete statement: %v\<close>
  | QueryFailed dberror           \<comment> \<open>the error of db.list.Query, returned as it is\<close>

record sqlResult =
  lastInsertId :: nat
  rowsAffected :: nat

text \<open>A statement reaches the server: it is logged and takes the next scheduled outcome.\<close>

definition reach :: "stmt \<Rightarrow> world \<Rightarrow> bool \<times> world" where
  "reach s st =
     (case faults st of
        [] \<Rightarrow> (False, st\<lparr>trace := trace st @ [Exec s]\<rparr>)
      | f # fs \<Rightarrow> (f, st\<lparr>faults := fs, trace := trace st @ [Exec s]\<rparr>))"

text \<open>The effect of the three data-changing statements on the table.\<close>

definition newRow :: "nat \<Rightarrow> string \<Rightarrow> string \<Rightarrow> string \<Rightarrow> string \<Rightarrow> string \<Rightarrow> string \<Rightarrow> string \<Rightarrow> row" where
  "newRow n a b c d e f g =
     \<lparr>rid = n, offerId = a, title = Some b, price = Some c, currency = Some d,
      imageUrl = Some e, description = Some f, merchantUrl = Some g, updated = True\<rparr>"

definition setRow :: "string \<Rightarrow> string \<Rightarrow> string \<Rightarrow> string \<Rightarrow> string \<Rightarrow> string \<Rightarrow> string \<Rightarrow> row \<Rightarrow> row" where
  "setRow a b c d e f g r =
     r\<lparr>offerId := a, title := Some b, price := Some c, currency := Some d,
       imageUrl := Some e, description := Some f, merchantUrl := Some g, updated := True\<rparr>"

fun run :: "stmt \<Rightarrow> sqlval list \<Rightarrow> world \<Rightarrow> (dberror + sqlResult) \<times> world" where
  "run db_insert [SqlStr a, SqlStr b, SqlStr c, SqlStr d, SqlStr e, SqlStr f, SqlStr g] st =
     (Inr \<lparr>lastInsertId = nextId st, rowsAffected = 1\<rparr>,
      st\<lparr>rows := rows st @ [newRow (nextId st) a b c d e f g], nextId := Suc (nextId st)\<rparr>)"
| "run db_update [SqlStr a, SqlStr b, SqlStr c, SqlStr d, SqlStr e, SqlStr f, SqlStr g, SqlInt k] st =
     (Inr \<lparr>lastInsertId = 0,
           rowsAffected = length (filter (\<lambda>r. rid r = k \<and> setRow a b c d e f g r \<noteq> r) (rows st))\<rparr>,
      st\<lparr>rows := map (\<lambda>r. if rid r = k then setRow a b c d e f g r else r) (rows st)\<rparr>)"
| "run db_delete [] st =
     (Inr \<lparr>lastInsertId = 0, rowsAffected = length (filter (\<lambda>r. \<not> updated r) (rows st))\<rparr>,
      st\<lparr>rows := filter updated (rows st)\<rparr>)"
| "run _ _ st = (Inl BadArgs, st)"

text \<open>
  \<open>Stmt.Exec\<close>: database/sql compares the number of arguments with the statement's
  \<open>NumInput\<close> before anything is sent, and fails with "expected %d arguments, got %d"
  when they differ.
\<close>

definition stmtExec :: "stmt \<Rightarrow> sqlval list \<Rightarrow> world \<Rightarrow> (dberror + sqlResult) \<times> world" where
  "stmtExec s args st =
     (if length args \<noteq> NumInput s then (Inl (ArgCount (NumInput s) (length args)), st)
      else case reach s st of
             (True, st') \<Rightarrow> (Inl BackendFault, st')
           | (False, st') \<Rightarrow> run s args st')"

text \<open>
  \<open>Stmt.Query\<close> for the two SELECT statements: the rows selected, in primary-key order.
  The comparison \<open>offerId = ?\<close> is taken as equality of the two strings; the collation
  of the table moreover identifies strings that differ in the case of letters only.
\<close>

fun select :: "stmt \<Rightarrow> sqlval list \<Rightarrow> world \<Rightarrow> dberror + row list" where
  "select db_list [] st = Inr (take 50 (rows st))"
| "select db_get [SqlStr i] st = Inr (filter (\<lambda>r. offerId r = i) (rows st))"
| "select _ _ st = Inl BadArgs"

definition stmtQuery :: "stmt \<Rightarrow> sqlval list \<Rightarrow> world \<Rightarrow> (dberror + row list) \<times> world" where
  "stmtQuery s args st =
     (if length args \<noteq> NumInput s then (Inl (ArgCount (NumInput s) (length args)), st)
      else case reach s st of
             (True, st') \<Rightarrow> (Inl BackendFault, st')
           | (False, st') \<Rightarrow> (select s args st', st'))"

section \<open>The store operations (offers/db_mysql.go)\<close>

text \<open>\<open>scanOffer\<close>: a NULL column reads as the empty string (\<open>sql.NullString.String\<close>).\<close>

definition nullString :: "string option \<Rightarrow> string" where
  "nullString v = (case v of None \<Rightarrow> [] | Some s \<Rightarrow> s)"

definition scanOffer :: "row \<Rightarrow> Offer" where
  "scanOffer r =
     \<lparr>ID = offerId r, Title = nullString (title r), Price = nullString (price r),
      Currency = nullString (currency r), ImageURL = nullString (imageUrl r),
      Description = nullString (description r), MerchantURL = nullString (merchantUrl r)\<rparr>"

definition execAffectingOneRow :: "stmt \<Rightarrow> sqlval list \<Rightarrow> world \<Rightarrow> (error + sqlResult) \<times> world" where
  "execAffectingOneRow s args st =
     (case stmtExec s args st of
        (Inl e, st') \<Rightarrow> (Inl (CouldNotExecute e), st')
      | (Inr r, st') \<Rightarrow>
          if rowsAffected r \<noteq> 1 then (Inl (ExpectedOneRow (rowsAffected r)), st')
          else (Inr r, st'))"

definition offerArgs :: "Offer \<Rightarrow> sqlval list" where
  "offerArgs off =
     [SqlStr (ID off), SqlStr (Title off), SqlStr (Price off), SqlStr (Currency off),
      SqlStr (ImageURL off), SqlStr (Description off), SqlStr (MerchantURL off)]"

definition UpdateOffer :: "Offer \<Rightarrow> world \<Rightarrow> error option \<times> world" where
  "UpdateOffer off st =
     (if ID off = [] then (Some UnassignedID, st)
      else case execAffectingOneRow db_update (offerArgs off) st of
             (Inl e, st') \<Rightarrow> (Some e, st')
           | (Inr r, st') \<Rightarrow> (None, st'))"

definition AddOffer :: "Offer \<Rightarrow> world \<Rightarrow> (error + nat) \<times> world" where
  "AddOffer off st =
     (case execAffectingOneRow db_insert (offerArgs off) st of
        (Inl e, st') \<Rightarrow> (Inl e, st')
      | (Inr r, st') \<Rightarrow> (Inr (lastInsertId r), st'))"

definition GetOffer :: "string \<Rightarrow> world \<Rightarrow> (error + Offer) \<times> world" where
  "GetOffer i st =
     (case stmtQuery db_get [SqlStr i] st of
        (Inl e, st') \<Rightarrow> (Inl (CouldNotGet e), st')
      | (Inr [], st') \<Rightarrow> (Inl (NoOfferWithId i), st')
      | (Inr (r # rs), st') \<Rightarrow> (Inr (scanOffer r), st'))"

definition DeleteOffers :: "world \<Rightarrow> error option \<times> world" where
  "DeleteOffers st =
     (case stmtExec db_delete [] st of
        (Inl e, st') \<Rightarrow> (Some (CouldNotDelete e), st')
      | (Inr r, st') \<Rightarrow> (None, st'))"

text \<open>
  \<open>strings.ToLower\<close>. Strings are byte strings. On a string all of whose bytes are below
  128 the letters A to Z (65 to 90) gain 32, which sets the bit of weight 32, and every
  other byte is kept. On any other string the library maps \<open>unicode.ToLower\<close> over the
  runes; the Unicode tables are not among the sources, so that mapping is the first
  argument, and everything below holds for whatever it is.
\<close>

definition isASCII :: "string \<Rightarrow> bool" where
  "isASCII s = list_all (\<lambda>c. (of_char c :: nat) < 128) s"

definition lowerByte :: "char \<Rightarrow> char" where
  "lowerByte c =
     (if 65 \<le> (of_char c :: nat) \<and> (of_char c :: nat) \<le> 90
      then (case c of Char b0 b1 b2 b3 b4 b5 b6 b7 \<Rightarrow> Char b0 b1 b2 b3 b4 True b6 b7)
      else c)"

definition ToLower :: "(string \<Rightarrow> string) \<Rightarrow> string \<Rightarrow> string" where
  "ToLower unicodeLower s = (if isASCII s then map lowerByte s else unicodeLower s)"

text \<open>\<open>strings.Contains s substr\<close>: \<open>substr\<close> occurs in \<open>s\<close> as a contiguous block.\<close>

fun Contains :: "string \<Rightarrow> string \<Rightarrow> bool" where
  "Contains [] substr = (substr = [])"
| "Contains (c # cs) substr = (prefix substr (c # cs) \<or> Contains cs substr)"

definition ListOffers :: "world \<Rightarrow> (error + Offer list) \<times> world" where
  "ListOffers st =
     (case stmtQuery db_list [] st of
        (Inl e, st') \<Rightarrow> (Inl (QueryFailed e), st')
      | (Inr rs, st') \<Rightarrow> (Inr (map scanOffer rs), st'))"

text \<open>The loop of \<open>SearchOffers\<close> over the rows of the list statement.\<close>

fun searchRows :: "(string \<Rightarrow> string) \<Rightarrow> string \<Rightarrow> row list \<Rightarrow> Offer list" where
  "searchRows u s [] = []"
| "searchRows u s (r # rs) =
     (if Contains (ToLower u (Description (scanOffer r))) (ToLower u s)
      then scanOffer r # searchRows u s rs
      else searchRows u s rs)"

definition SearchOffers :: "(string \<Rightarrow> string) \<Rightarrow> string \<Rightarrow> world \<Rightarrow> (error + Offer list) \<times> world" where
  "SearchOffers u s st =
     (case stmtQuery db_list [] st of
        (Inl e, st') \<Rightarrow> (Inl (QueryFailed e), st')
      | (Inr rs, st') \<Rightarrow>
          if length (searchRows u s rs) = 0 then (Inl (NoOfferWithDescription s), st')
          else (Inr (searchRows u s rs), st'))"

section \<open>The reconciler (offers/config.go)\<close>

text \<open>
  The fields of an upstream product that \<open>updateProducts\<close> reads. \<open>Price\<close> is a pointer in
  the API's type, so a product may have none.
\<close>

record ProductPrice =
  pValue :: string
  pCurrency :: string

record Product =
  pId :: string
  pTitle :: string
  pPrice :: "ProductPrice option"
  pImageLink :: string
  pDescription :: string
  pLink :: string

datatype apierror =
    ApiError nat string     \<comment> \<open>a googleapi.Error: code and message\<close>
  | NonApiError string

datatype goerror = StoreError error | UpstreamError apierror

text \<open>How a call ends: it returns nil, it returns an error, or it panics.\<close>

datatype outcome = Ok | Failed goerror | Panic

text \<open>
  \<open>updateProducts\<close>, the callback for one page of products. Building the offer
  dereferences the price, which panics when the product has none. The error of
  \<open>UpdateOffer\<close> is dropped, and \<open>AddOffer\<close> is called whether or not the offer was found.
\<close>

definition offerOf :: "Product \<Rightarrow> ProductPrice \<Rightarrow> Offer" where
  "offerOf p pr =
     \<lparr>ID = pId p, Title = pTitle p, Price = pValue pr, Currency = pCurrency pr,
      ImageURL = pImageLink p, Description = pDescription p, MerchantURL = pLink p\<rparr>"

fun updateProducts :: "Product list \<Rightarrow> world \<Rightarrow> outcome \<times> world" where
  "updateProducts [] st =
     (case DeleteOffers st of
        (None, st') \<Rightarrow> (Ok, st')
      | (Some e, st') \<Rightarrow> (Failed (StoreError e), st'))"
| "updateProducts (p # ps) st =
     (case pPrice p of
        None \<Rightarrow> (Panic, st)
      | Some pr \<Rightarrow>
          (case GetOffer (pId p) st of
             (g, st1) \<Rightarrow>
               (case AddOffer (offerOf p pr)
                       (case g of Inr found \<Rightarrow> snd (UpdateOffer (offerOf p pr) st1) | Inl e \<Rightarrow> st1) of
                  (Inl e, st3) \<Rightarrow> (Failed (StoreError e), st3)
                | (Inr n, st3) \<Rightarrow> updateProducts ps st3)))"

text \<open>
  What an upstream list call answers, request by request: the request fails, or it
  gives a page with no continuation token, or a page and what the requests with its
  token give. \<open>Pages\<close> requests page after page and hands each to the callback until a
  request or the callback fails or the last page is done.
\<close>

datatype 'a feed = FetchFailed apierror | LastPage 'a | NextPage 'a "'a feed"

fun Pages :: "apicall \<Rightarrow> ('a \<Rightarrow> world \<Rightarrow> outcome \<times> world) \<Rightarrow> 'a feed \<Rightarrow> world \<Rightarrow> outcome \<times> world" where
  "Pages c f (FetchFailed e) st = (Failed (UpstreamError e), st\<lparr>trace := trace st @ [Call c]\<rparr>)"
| "Pages c f (LastPage x) st = f x (st\<lparr>trace := trace st @ [Call c]\<rparr>)"
| "Pages c f (NextPage x rest) st =
     (case f x (st\<lparr>trace := trace st @ [Call c]\<rparr>) of
        (Ok, st') \<Rightarrow> Pages c f rest st'
      | (r, st') \<Rightarrow> (r, st'))"

record Account =
  accId :: "64 word"

record AccountIdentifier =
  MerchantId :: "64 word"
  AggregatorId :: "64 word"

text \<open>The upstream catalog, as the answers it gives.\<close>

record upstream =
  authinfoDo :: "apierror + AccountIdentifier list"
  accountsGet :: "64 word \<Rightarrow> apierror + Account"
  accountsList :: "64 word \<Rightarrow> Account list feed"
  productsList :: "64 word \<Rightarrow> Product list feed"

text \<open>
  The closures of \<open>updateOffersData\<close>. Both return nil whatever happened below them: an
  error of \<open>Pages\<close> is dropped; only a panic passes through.
\<close>

definition updateProductsList :: "upstream \<Rightarrow> Account \<Rightarrow> world \<Rightarrow> outcome \<times> world" where
  "updateProductsList up a st =
     (case Pages (ProductsListCall (accId a)) updateProducts (productsList up (accId a)) st of
        (Panic, st') \<Rightarrow> (Panic, st')
      | (r, st') \<Rightarrow> (Ok, st'))"

fun updateAccountTables :: "upstream \<Rightarrow> Account list \<Rightarrow> world \<Rightarrow> outcome \<times> world" where
  "updateAccountTables up [] st = (Ok, st)"
| "updateAccountTables up (a # as) st =
     (case updateProductsList up a st of
        (Panic, st') \<Rightarrow> (Panic, st')
      | (r, st') \<Rightarrow> updateAccountTables up as st')"

definition updateOffersData :: "upstream \<Rightarrow> Account \<Rightarrow> bool \<Rightarrow> world \<Rightarrow> outcome \<times> world" where
  "updateOffersData up account isMCA st =
     (if \<not> isMCA then
        (case updateProductsList up account st of
           (Panic, st') \<Rightarrow> (Panic, st')
         | (r, st') \<Rightarrow> (Ok, st'))
      else
        (case Pages (AccountsListCall (accId account)) (updateAccountTables up)
                (accountsList up (accId account)) st of
           (Panic, st') \<Rightarrow> (Panic, st')
         | (r, st') \<Rightarrow> (Ok, st')))"

text \<open>The number of sweeps sent to the server so far.\<close>

definition sweeps :: "world \<Rightarrow> nat" where
  "sweeps st = length (filter (\<lambda>e. e = Exec db_delete) (trace st))"

text \<open>The offer ids held by the table, row by row.\<close>

definition storedIds :: "world \<Rightarrow> string list" where
  "storedIds st = map offerId (rows st)"

section \<open>The sync driver (offers/config.go)\<close>

text \<open>
  What \<open>RunUpdate\<close> finds on its host, step by step: the home directory of the current
  user (or none, when \<open>user.Current\<close> fails), the value of GAE_INSTANCE, whether the
  configuration directory is missing, whether \<open>authWithGoogle\<close> comes back (it is not
  among the source files; it either gives a client or ends the process), whether the
  log file opens and whether the deferred close of it succeeds, whether \<open>content.New\<close>
  gives a service, and the endpoint override with what \<open>url.Parse\<close> and \<open>IsAbs\<close> say
  about it.
\<close>

record host =
  userCurrent :: "string option"
  gaeInstance :: string
  configDirMissing :: bool
  authReturns :: bool
  logFileOpens :: bool
  logFileCloses :: bool
  contentNewOk :: bool
  endpoint :: string
  endpointParses :: bool
  endpointIsAbs :: bool

datatype fatal =
    UserCurrentFailed
  | NoMerchantId              \<comment> \<open>valid merchant_id should be provided\<close>
  | NoConfigDir               \<comment> \<open>Configuration directory %s does not exist\<close>
  | AuthStopped
  | LogFileFailed             \<comment> \<open>Failed to open log file: %s\<close>
  | LogFileCloseFailed        \<comment> \<open>Failed to close log file: %s\<close>
  | ContentNewFailed
  | EndpointUnparsable        \<comment> \<open>Failure to parse ... value as URL\<close>
  | EndpointNotAbsolute       \<comment> \<open>Expected absolute URL for ... value\<close>
  | AuthinfoFailed apierror   \<comment> \<open>Getting information for authenticated account failed\<close>
  | NoAccounts                \<comment> \<open>The current authenticated user has no access to any Merchant Center accounts.\<close>
  | AccountGetFailed apierror \<comment> \<open>Getting Merchant Center account information failed\<close>

text \<open>
  How a run of the driver ends: it returns, the process exits through \<open>log.Fatal\<close>, or
  it panics. A fatal exit skips the deferred close of the log file; a return or a panic
  runs it, and a close that fails is fatal in its turn.
\<close>

datatype exit = Completed | Fatal fatal | Panicked

text \<open>
  The loop labelled \<open>CheckAccounts\<close>: the first identifier whose merchant id or aggregator
  id equals the configured id decides, the merchant case being tried first. Ids are
  64-bit; the conversions between \<open>int64\<close> and \<open>uint64\<close> keep the bits.
\<close>

fun CheckAccounts :: "64 word \<Rightarrow> AccountIdentifier list \<Rightarrow> bool" where
  "CheckAccounts i [] = False"
| "CheckAccounts i (a # as) =
     (if i = MerchantId a then False
      else if i = AggregatorId a then True
      else CheckAccounts i as)"

definition retrieve :: "upstream \<Rightarrow> 64 word \<Rightarrow> world \<Rightarrow> exit \<times> world" where
  "retrieve up i st =
     (case authinfoDo up of
        Inl e \<Rightarrow> (Fatal (AuthinfoFailed e), st\<lparr>trace := trace st @ [Call AuthinfoCall]\<rparr>)
      | Inr [] \<Rightarrow> (Fatal NoAccounts, st\<lparr>trace := trace st @ [Call AuthinfoCall]\<rparr>)
      | Inr (firstAccount # others) \<Rightarrow>
          (let i' = (if i = 0 then (if i = 0 then AggregatorId firstAccount
                                    else MerchantId firstAccount)
                     else i);
               isMCA = CheckAccounts i' (firstAccount # others);
               st1 = st\<lparr>trace := trace st @ [Call AuthinfoCall, Call (AccountsGetCall i')]\<rparr>
           in case accountsGet up i' of
                Inl e \<Rightarrow> (Fatal (AccountGetFailed e), st1)
              | Inr account \<Rightarrow>
                  (case updateOffersData up account isMCA st1 of
                     (Panic, st2) \<Rightarrow> (Panicked, st2)
                   | (r, st2) \<Rightarrow> (Completed, st2))))"

definition RunUpdate :: "host \<Rightarrow> upstream \<Rightarrow> 64 word \<Rightarrow> string \<Rightarrow> world \<Rightarrow> exit \<times> world" where
  "RunUpdate h up i logFile st =
     (if userCurrent h = None then (Fatal UserCurrentFailed, st)
      else if i = 0 then (Fatal NoMerchantId, st)
      else if gaeInstance h = [] \<and> configDirMissing h then (Fatal NoConfigDir, st)
      else if \<not> authReturns h then (Fatal AuthStopped, st)
      else if logFile \<noteq> [] \<and> \<not> logFileOpens h then (Fatal LogFileFailed, st)
      else if \<not> contentNewOk h then (Fatal ContentNewFailed, st)
      else if endpoint h \<noteq> [] \<and> \<not> endpointParses h then (Fatal EndpointUnparsable, st)
      else if endpoint h \<noteq> [] \<and> \<not> endpointIsAbs h then (Fatal EndpointNotAbsolute, st)
      else (case retrieve up i st of
              (Fatal f, st') \<Rightarrow> (Fatal f, st')
            | (r, st') \<Rightarrow>
                if logFile \<noteq> [] \<and> \<not> logFileCloses h then (Fatal LogFileCloseFailed, st')
                else (r, st')))"

section \<open>Schema bootstrap (offers/db_mysql.go)\<close>

text \<open>
  The errors a connection can give: the driver's \<open>ErrBadConn\<close>, a \<open>MySQLError\<close> with its
  number, or any other error. The server is given by the answers it has for the steps
  of \<open>newMySQLDB\<close>: opening the two connections, the two pings, and the statements run
  directly on the first connection. The answer recorded for \<open>DESCRIBE offers\<close> is the
  one the server gives once \<open>library\<close> is the default database of the connection.
\<close>

datatype sqlerror = ErrBadConn | MySQLError nat | OtherSqlError











section \<open>Concrete tables, catalogs and servers\<close>

text \<open>The server carries out the next statement that reaches it.\<close>

definition accepted :: "world \<Rightarrow> bool" where
  "accepted st = (case faults st of [] \<Rightarrow> True | f # fs \<Rightarrow> \<not> f)"

definition emptyTable :: world where
  "emptyTable = \<lparr>rows = [], nextId = 1, faults = [], trace = []\<rparr>"

definition product :: "string \<Rightarrow> string \<Rightarrow> Product" where
  "product i d =
     \<lparr>pId = i, pTitle = ''title'', pPrice = Some \<lparr>pValue = ''9.99'', pCurrency = ''USD''\<rparr>,
      pImageLink = ''img'', pDescription = d, pLink = ''link''\<rparr>"

definition offerA :: Offer where
  "offerA = \<lparr>ID = ''A'', Title = ''new title'', Price = ''1.00'', Currency = ''EUR'',
             ImageURL = ''img2'', Description = ''changed'', MerchantURL = ''link2''\<rparr>"

definition tableA :: world where
  "tableA = \<lparr>rows = [newRow 1 ''A'' ''title'' ''9.99'' ''USD'' ''img'' ''Red Shoes'' ''link''],
             nextId = 2, faults = [], trace = []\<rparr>"

text \<open>A table of 51 rows: fifty that describe a hat, then one that describes shoes.\<close>

definition filler :: "nat \<Rightarrow> row" where
  "filler n = newRow n ''F'' ''title'' ''9.99'' ''USD'' ''img'' ''Blue Hat'' ''link''"

definition table51 :: world where
  "table51 =
     \<lparr>rows = map filler [1..<51] @
             [newRow 51 ''A'' ''title'' ''9.99'' ''USD'' ''img'' ''Red Shoes'' ''link''],
      nextId = 52, faults = [], trace = []\<rparr>"

text \<open>
  A catalog whose authenticated identity sees the one merchant account 7, and whose
  product list answers with the given pages whatever the account.
\<close>

definition catalog :: "Product list feed \<Rightarrow> upstream" where
  "catalog pages =
     \<lparr>authinfoDo = Inr [\<lparr>MerchantId = 7, AggregatorId = 0\<rparr>],
      accountsGet = (\<lambda>i. Inr \<lparr>accId = i\<rparr>),
      accountsList = (\<lambda>i. LastPage []),
      productsList = (\<lambda>i. pages)\<rparr>"

definition merchant :: Account where
  "merchant = \<lparr>accId = 7\<rparr>"

text \<open>The table after the reconciler has put the offers A, B and C into the empty table.\<close>

definition tableABC :: world where
  "tableABC =
     snd (updateProducts
            [product ''A'' ''Red Shoes'', product ''B'' ''Blue Hat'', product ''C'' ''Green Coat'']
            emptyTable)"

definition pageAB :: "Product list feed" where
  "pageAB = LastPage [product ''A'' ''Red Shoes'', product ''B'' ''Blue Hat'']"

definition twoPages :: "Product list feed" where
  "twoPages = NextPage [product ''X1'' ''Red Shoes''] (LastPage [product ''X2'' ''Blue Hat''])"

text \<open>A host on which every step of \<open>RunUpdate\<close> before \<open>retrieve\<close> goes through.\<close>

definition readyHost :: host where
  "readyHost =
     \<lparr>userCurrent = Some ''/home/app'', gaeInstance = ''instance'', configDirMissing = False,
      authReturns = True, logFileOpens = True, logFileCloses = True, contentNewOk = True, endpoint = [],
      endpointParses = True, endpointIsAbs = True\<rparr>"







text \<open>The same catalog for an identity that has access to no account.\<close>

definition noAccounts :: upstream where
  "noAccounts = (catalog pageAB)\<lparr>authinfoDo := Inr []\<rparr>"

text \<open>
  The empty table on a server that carries out four statements and refuses the fifth.
\<close>

definition faultyTable :: world where
  "faultyTable = \<lparr>rows = [], nextId = 1, faults = [False, False, False, False, True], trace = []\<rparr>"

section \<open>Pages served and priced products\<close>

text \<open>The pages a feed hands out before it ends or a request fails.\<close>

fun served :: "'a feed \<Rightarrow> 'a list" where
  "served (FetchFailed e) = []"
| "served (LastPage x) = [x]"
| "served (NextPage x rest) = x # served rest"

text \<open>Every product of the page has a price.\<close>

definition priced :: "Product list \<Rightarrow> bool" where
  "priced ps = list_all (\<lambda>p. pPrice p \<noteq> None) ps"

text \<open>Every row of the table has its flag set.\<close>

definition flagged :: "world \<Rightarrow> bool" where
  "flagged st = list_all updated (rows st)"

section \<open>The arity of the prepared statements\<close>

lemma NumInput_list: "NumInput db_list = 0"
  by (simp add: NumInput_def listStatement_def)

lemma NumInput_get: "NumInput db_get = 1"
  by (simp add: NumInput_def getStatement_def)

lemma NumInput_insert: "NumInput db_insert = 7"
  by (simp add: NumInput_def insertStatement_def)

lemma NumInput_update: "NumInput db_update = 8"
  by (simp add: NumInput_def updateStatement_def)

lemma NumInput_delete: "NumInput db_delete = 0"
  by (simp add: NumInput_def deleteStatement_def)

lemma length_offerArgs: "length (offerArgs off) = 7"
  by (simp add: offerArgs_def)

section \<open>What each store operation does to the state\<close>

lemma reach_eq:
  "reach s st = (\<not> accepted st, st\<lparr>faults := tl (faults st), trace := trace st @ [Exec s]\<rparr>)"
  by (cases "faults st") (simp_all add: reach_def accepted_def)

lemma UpdateOffer_state: "snd (UpdateOffer off st) = st"
  by (simp add: UpdateOffer_def execAffectingOneRow_def stmtExec_def NumInput_update
      length_offerArgs)

lemma GetOffer_state:
  "snd (GetOffer i st) = st\<lparr>faults := tl (faults st), trace := trace st @ [Exec db_get]\<rparr>"
  by (cases "accepted st")
     (simp_all add: GetOffer_def stmtQuery_def NumInput_get reach_eq split: list.splits)

lemma AddOffer_accepted:
  "accepted st \<Longrightarrow>
   AddOffer off st =
     (Inr (nextId st),
      st\<lparr>rows := rows st @ [newRow (nextId st) (ID off) (Title off) (Price off) (Currency off)
                                (ImageURL off) (Description off) (MerchantURL off)],
         nextId := Suc (nextId st), faults := tl (faults st),
         trace := trace st @ [Exec db_insert]\<rparr>)"
  by (simp add: AddOffer_def execAffectingOneRow_def stmtExec_def NumInput_insert
      length_offerArgs reach_eq) (simp add: offerArgs_def)

lemma AddOffer_refused:
  "\<not> accepted st \<Longrightarrow>
   AddOffer off st =
     (Inl (CouldNotExecute BackendFault),
      st\<lparr>faults := tl (faults st), trace := trace st @ [Exec db_insert]\<rparr>)"
  by (simp add: AddOffer_def execAffectingOneRow_def stmtExec_def NumInput_insert
      length_offerArgs reach_eq)

text \<open>
  A sweep that the server carries out deletes exactly the rows whose flag is false; a
  refused sweep deletes nothing.
\<close>

lemma DeleteOffers_accepted:
  "accepted st \<Longrightarrow>
   DeleteOffers st =
     (None, st\<lparr>rows := filter updated (rows st), faults := tl (faults st),
               trace := trace st @ [Exec db_delete]\<rparr>)"
  by (simp add: DeleteOffers_def stmtExec_def NumInput_delete reach_eq)

lemma DeleteOffers_refused:
  "\<not> accepted st \<Longrightarrow>
   DeleteOffers st =
     (Some (CouldNotDelete BackendFault),
      st\<lparr>faults := tl (faults st), trace := trace st @ [Exec db_delete]\<rparr>)"
  by (simp add: DeleteOffers_def stmtExec_def NumInput_delete reach_eq)

lemma stmtQuery_list:
  "stmtQuery db_list [] st =
     (if accepted st then Inr (take 50 (rows st)) else Inl BackendFault,
      st\<lparr>faults := tl (faults st), trace := trace st @ [Exec db_list]\<rparr>)"
  by (simp add: stmtQuery_def NumInput_list reach_eq)

section \<open>UpdateOffer\<close>

text \<open>
  C6. For every offer with a non-empty ID, \<open>UpdateOffer\<close> returns an error and leaves the
  table, and everything else outside the process, as it was: the update statement has
  eight placeholders, \<open>UpdateOffer\<close> passes seven arguments, and the execution is given
  up with "expected 8 arguments, got 7" before the statement reaches the server.
\<close>

theorem UpdateOffer_never_executes:
  "ID off \<noteq> [] \<Longrightarrow>
     NumInput db_update = 8 \<and> length (offerArgs off) = 7 \<and>
     UpdateOffer off st = (Some (CouldNotExecute (ArgCount 8 7)), st)"
  by (simp add: UpdateOffer_def execAffectingOneRow_def stmtExec_def NumInput_update
      length_offerArgs)

theorem UpdateOffer_never_executes_witness:
  "ID offerA \<noteq> [] \<and> NumInput db_update = 8 \<and> length (offerArgs offerA) = 7 \<and>
   UpdateOffer offerA tableA = (Some (CouldNotExecute (ArgCount 8 7)), tableA) \<and>
   map offerId (rows tableA) = [''A'']"
proof -
  have h: "ID offerA \<noteq> []" by (simp add: offerA_def)
  show ?thesis
    using h UpdateOffer_never_executes [OF h, of tableA]
    by (simp add: tableA_def newRow_def)
qed

section \<open>SearchOffers\<close>

lemma Contains_sublist: "Contains s substr \<longleftrightarrow> sublist substr s"
  by (induction s) (simp_all add: sublist_Cons_right)

lemma Contains_empty: "Contains s []"
  by (cases s) simp_all

lemma ToLower_empty: "ToLower u [] = []"
  by (simp add: ToLower_def isASCII_def)

lemma searchRows_filter:
  "searchRows u q rs =
     filter (\<lambda>off. Contains (ToLower u (Description off)) (ToLower u q)) (map scanOffer rs)"
  by (induction rs) simp_all

text \<open>
  What \<open>SearchOffers\<close> does when the server carries out the list statement: it looks at
  the first fifty rows of the table, and at no other row.
\<close>

lemma SearchOffers_examines_fifty:
  "accepted st \<Longrightarrow>
   fst (SearchOffers u q st) =
     (if filter (\<lambda>off. sublist (ToLower u q) (ToLower u (Description off)))
           (map scanOffer (take 50 (rows st))) = []
      then Inl (NoOfferWithDescription q)
      else Inr (filter (\<lambda>off. sublist (ToLower u q) (ToLower u (Description off)))
                 (map scanOffer (take 50 (rows st)))))"
  by (simp add: SearchOffers_def stmtQuery_list searchRows_filter Contains_sublist filter_map)

text \<open>
  C7. The claim is that \<open>SearchOffers\<close> returns all and only the stored offers whose
  description contains the query, case ignored. The code at a concrete input: the
  table \<open>table51\<close> has 51 rows, and the description of the last one, "Red Shoes",
  contains the query "shoes" when case is ignored; the server carries out the list
  statement; yet \<open>SearchOffers\<close> fails with "could not find offer with description",
  because the list statement, which ends in "limit 50", hands it the first fifty rows
  only. All strings of the input are ASCII, so the Unicode mapping plays no part.
\<close>

theorem SearchOffers_misses_row_51:
  "length (rows table51) = 51 \<and> accepted table51 \<and>
   description (rows table51 ! 50) = Some ''Red Shoes'' \<and>
   Contains (ToLower u (Description (scanOffer (rows table51 ! 50)))) (ToLower u ''shoes'') \<and>
   fst (SearchOffers u ''shoes'' table51) = Inl (NoOfferWithDescription ''shoes'')"
  by code_simp

text \<open>
  C10. The empty query is contained in every description, so \<open>SearchOffers\<close> with the
  empty query, on a table that is not empty and a server that carries out the list
  statement, returns every offer the list statement selects, the first fifty rows of
  the table; on an empty table it returns an error, not an empty list.
\<close>

theorem SearchOffers_empty_query:
  "Contains (ToLower u d) (ToLower u []) \<and>
   (rows st = [] \<longrightarrow> isl (fst (SearchOffers u [] st))) \<and>
   (accepted st \<and> rows st \<noteq> [] \<longrightarrow>
      fst (SearchOffers u [] st) = Inr (map scanOffer (take 50 (rows st))) \<and>
      length (map scanOffer (take 50 (rows st))) \<le> 50)"
  by (cases "rows st")
     (simp_all add: SearchOffers_def stmtQuery_list searchRows_filter Contains_empty ToLower_empty)

theorem SearchOffers_empty_query_witness:
  "rows emptyTable = [] \<and> isl (fst (SearchOffers (\<lambda>s. s) [] emptyTable)) \<and>
   accepted tableA \<and> rows tableA \<noteq> [] \<and>
   fst (SearchOffers (\<lambda>s. s) [] tableA) =
     Inr [\<lparr>ID = ''A'', Title = ''title'', Price = ''9.99'', Currency = ''USD'',
           ImageURL = ''img'', Description = ''Red Shoes'', MerchantURL = ''link''\<rparr>]"
proof -
  have e: "rows emptyTable = []" by (simp add: emptyTable_def)
  have h: "accepted tableA \<and> rows tableA \<noteq> []" by (simp add: accepted_def tableA_def)
  have r: "map scanOffer (take 50 (rows tableA)) =
      [\<lparr>ID = ''A'', Title = ''title'', Price = ''9.99'', Currency = ''USD'',
        ImageURL = ''img'', Description = ''Red Shoes'', MerchantURL = ''link''\<rparr>]"
    by (simp add: tableA_def newRow_def scanOffer_def nullString_def)
  show ?thesis
    using e h SearchOffers_empty_query [of "\<lambda>s. s" "[]" emptyTable]
      SearchOffers_empty_query [of "\<lambda>s. s" "[]" tableA]
    by (simp add: r)
qed

section \<open>The reconciler on a server that refuses nothing\<close>

lemma updateProducts_step:
  "pPrice p = Some pr \<Longrightarrow>
   updateProducts (p # ps) st =
     (case AddOffer (offerOf p pr) (snd (GetOffer (pId p) st)) of
        (Inl e, s3) \<Rightarrow> (Failed (StoreError e), s3)
      | (Inr n, s3) \<Rightarrow> updateProducts ps s3)"
  by (cases "GetOffer (pId p) st"; cases "fst (GetOffer (pId p) st)")
     (simp_all add: UpdateOffer_state)

text \<open>
  One page: every product of the page adds a row, whether or not its id is in the
  table already; the sweep at the end of the page is the only one; and afterwards
  every row has its flag set, so that a later sweep finds nothing to delete.
\<close>

lemma updateProducts_no_faults:
  "faults st = [] \<Longrightarrow> priced ps \<Longrightarrow>
   fst (updateProducts ps st) = Ok \<and>
   faults (snd (updateProducts ps st)) = [] \<and>
   sweeps (snd (updateProducts ps st)) = Suc (sweeps st) \<and>
   filter updated (rows (snd (updateProducts ps st))) = rows (snd (updateProducts ps st)) \<and>
   storedIds (snd (updateProducts ps st)) = map offerId (filter updated (rows st)) @ map pId ps"
proof (induction ps arbitrary: st)
  case Nil
  then have "accepted st" by (simp add: accepted_def)
  then show ?case using Nil by (simp add: DeleteOffers_accepted storedIds_def sweeps_def)
next
  case (Cons p ps)
  then obtain pr where pr: "pPrice p = Some pr" by (auto simp: priced_def)
  let ?s1 = "snd (GetOffer (pId p) st)"
  have f1: "faults ?s1 = []" using Cons.prems by (simp add: GetOffer_state)
  then have acc: "accepted ?s1" by (simp add: accepted_def)
  obtain s3 where add: "AddOffer (offerOf p pr) ?s1 = (Inr (nextId ?s1), s3)"
    and f3: "faults s3 = []"
    and r3: "rows s3 = rows st @ [newRow (nextId st) (pId p) (pTitle p) (pValue pr)
                                    (pCurrency pr) (pImageLink p) (pDescription p) (pLink p)]"
    and t3: "sweeps s3 = sweeps st"
    using AddOffer_accepted [OF acc, of "offerOf p pr"] f1
    by (simp add: GetOffer_state offerOf_def sweeps_def)
  have step: "updateProducts (p # ps) st = updateProducts ps s3"
    using updateProducts_step [OF pr, of ps st] add by simp
  have "priced ps" using Cons.prems by (simp add: priced_def)
  from Cons.IH [OF f3 this] show ?case
    unfolding step by (simp add: r3 t3 newRow_def)
qed

text \<open>
  All pages of one product list: there are as many sweeps as pages served, and the
  table grows by one row for every product of every page.
\<close>

lemma Pages_no_faults:
  "faults st = [] \<Longrightarrow> filter updated (rows st) = rows st \<Longrightarrow>
   list_all priced (served feed) \<Longrightarrow>
   faults (snd (Pages c updateProducts feed st)) = [] \<and>
   filter updated (rows (snd (Pages c updateProducts feed st))) =
     rows (snd (Pages c updateProducts feed st)) \<and>
   sweeps (snd (Pages c updateProducts feed st)) = sweeps st + length (served feed) \<and>
   storedIds (snd (Pages c updateProducts feed st)) =
     storedIds st @ map pId (concat (served feed))"
proof (induction feed arbitrary: st)
  case (FetchFailed e)
  then show ?case by (simp add: sweeps_def storedIds_def)
next
  case (LastPage x)
  let ?s0 = "st\<lparr>trace := trace st @ [Call c]\<rparr>"
  have "faults ?s0 = []" using LastPage by simp
  from updateProducts_no_faults [OF this, of x] LastPage.prems
  show ?case by (simp add: sweeps_def storedIds_def)
next
  case (NextPage x rest)
  let ?s0 = "st\<lparr>trace := trace st @ [Call c]\<rparr>"
  let ?s1 = "snd (updateProducts x ?s0)"
  have f0: "faults ?s0 = []" using NextPage.prems by simp
  have px: "priced x" and pr: "list_all priced (served rest)" using NextPage.prems by simp_all
  note u = updateProducts_no_faults [OF f0 px]
  have step: "Pages c updateProducts (NextPage x rest) st = Pages c updateProducts rest ?s1"
    using u by (cases "updateProducts x ?s0") simp
  have f1: "faults ?s1 = []" and r1: "filter updated (rows ?s1) = rows ?s1" using u by simp_all
  have s1: "sweeps ?s1 = Suc (sweeps st)" using u by (simp add: sweeps_def)
  have i1: "storedIds ?s1 = storedIds st @ map pId x"
    using u NextPage.prems(2) by (simp add: storedIds_def)
  from NextPage.IH [OF f1 r1 pr] show ?case
    unfolding step by (simp add: s1 i1)
qed

lemma snd_updateProductsList:
  "snd (updateProductsList up a st) =
     snd (Pages (ProductsListCall (accId a)) updateProducts (productsList up (accId a)) st)"
  by (simp add: updateProductsList_def split: prod.splits outcome.splits)

lemma snd_updateOffersData_merchant:
  "snd (updateOffersData up account False st) = snd (updateProductsList up account st)"
  by (simp add: updateOffersData_def split: prod.splits outcome.splits)

text \<open>A whole pass over one merchant account.\<close>

lemma updateOffersData_merchant_no_faults:
  "faults st = [] \<Longrightarrow> filter updated (rows st) = rows st \<Longrightarrow>
   list_all priced (served (productsList up (accId account))) \<Longrightarrow>
   sweeps (snd (updateOffersData up account False st)) =
     sweeps st + length (served (productsList up (accId account))) \<and>
   storedIds (snd (updateOffersData up account False st)) =
     storedIds st @ map pId (concat (served (productsList up (accId account))))"
  using Pages_no_faults [of st "productsList up (accId account)" "ProductsListCall (accId account)"]
  by (simp add: snd_updateOffersData_merchant snd_updateProductsList)

section \<open>No pass deletes a row whose flag is set\<close>

text \<open>
  Whatever the catalog answers and whatever the server refuses, a pass that starts on
  a table in which every row has its flag set ends on a table that begins with the
  same rows, and in which every row has its flag set again. Every row the reconciler
  inserts has its flag set, so no sweep of the reconciler deletes a row that the
  reconciler wrote.
\<close>

lemma AddOffer_keeps:
  "flagged st \<Longrightarrow>
   prefix (rows st) (rows (snd (AddOffer off st))) \<and> flagged (snd (AddOffer off st))"
  by (cases "accepted st") (simp_all add: AddOffer_accepted AddOffer_refused flagged_def newRow_def)

lemma DeleteOffers_keeps:
  "flagged st \<Longrightarrow> rows (snd (DeleteOffers st)) = rows st"
  by (cases "accepted st")
     (simp_all add: DeleteOffers_accepted DeleteOffers_refused flagged_def list_all_iff)

lemma updateProducts_keeps:
  "flagged st \<Longrightarrow>
   prefix (rows st) (rows (snd (updateProducts ps st))) \<and> flagged (snd (updateProducts ps st))"
proof (induction ps arbitrary: st)
  case Nil
  then show ?case
    using DeleteOffers_keeps [of st]
    by (cases "DeleteOffers st"; cases "fst (DeleteOffers st)") (simp_all add: flagged_def)
next
  case (Cons p ps)
  show ?case
  proof (cases "pPrice p")
    case None
    then show ?thesis using Cons.prems by simp
  next
    case (Some pr)
    let ?s1 = "snd (GetOffer (pId p) st)"
    have r1: "rows ?s1 = rows st" by (simp add: GetOffer_state)
    then have fl1: "flagged ?s1" using Cons.prems by (simp add: flagged_def)
    note a = AddOffer_keeps [OF fl1, of "offerOf p pr"]
    show ?thesis
    proof (cases "AddOffer (offerOf p pr) ?s1")
      case (Pair res s3)
      then have p3: "prefix (rows st) (rows s3)" and fl3: "flagged s3" using a r1 by simp_all
      show ?thesis
      proof (cases res)
        case (Inl e)
        then have "updateProducts (p # ps) st = (Failed (StoreError e), s3)"
          using Pair by (simp add: updateProducts_step [OF Some] del: updateProducts.simps)
        then show ?thesis
          using p3 fl3 by simp
      next
        case (Inr n)
        then have "updateProducts (p # ps) st = updateProducts ps s3"
          using Pair by (simp add: updateProducts_step [OF Some] del: updateProducts.simps)
        then show ?thesis
          using Cons.IH [OF fl3] p3 by (auto intro: prefix_order.trans)
      qed
    qed
  qed
qed

lemma Pages_keeps:
  assumes f: "\<And>x st. flagged st \<Longrightarrow> prefix (rows st) (rows (snd (f x st))) \<and> flagged (snd (f x st))"
  shows "flagged st \<Longrightarrow>
    prefix (rows st) (rows (snd (Pages c f feed st))) \<and> flagged (snd (Pages c f feed st))"
proof (induction feed arbitrary: st)
  case (FetchFailed e)
  then show ?case by (simp add: flagged_def)
next
  case (LastPage x)
  then have "flagged (st\<lparr>trace := trace st @ [Call c]\<rparr>)" by (simp add: flagged_def)
  from f [OF this, of x] show ?case by simp
next
  case (NextPage x rest)
  let ?s0 = "st\<lparr>trace := trace st @ [Call c]\<rparr>"
  have "flagged ?s0" using NextPage.prems by (simp add: flagged_def)
  from f [OF this, of x]
  have p1: "prefix (rows st) (rows (snd (f x ?s0)))" and fl1: "flagged (snd (f x ?s0))"
    by simp_all
  show ?case
  proof (cases "f x ?s0")
    case (Pair r s1)
    then show ?thesis
      using p1 fl1 NextPage.IH [of s1]
      by (cases r) (auto intro: prefix_order.trans)
  qed
qed

lemma updateProductsList_keeps:
  "flagged st \<Longrightarrow>
   prefix (rows st) (rows (snd (updateProductsList up a st))) \<and>
   flagged (snd (updateProductsList up a st))"
  using Pages_keeps [of updateProducts st "ProductsListCall (accId a)" "productsList up (accId a)"]
    updateProducts_keeps
  by (simp add: snd_updateProductsList)

lemma updateAccountTables_keeps:
  "flagged st \<Longrightarrow>
   prefix (rows st) (rows (snd (updateAccountTables up as st))) \<and>
   flagged (snd (updateAccountTables up as st))"
proof (induction as arbitrary: st)
  case Nil
  then show ?case by simp
next
  case (Cons a as)
  note u = updateProductsList_keeps [OF Cons.prems, of up a]
  show ?case
  proof (cases "updateProductsList up a st")
    case (Pair r s1)
    then show ?thesis
      using u Cons.IH [of s1]
      by (cases r) (auto intro: prefix_order.trans)
  qed
qed

lemma updateOffersData_keeps:
  "flagged st \<Longrightarrow>
   prefix (rows st) (rows (snd (updateOffersData up account isMCA st))) \<and>
   flagged (snd (updateOffersData up account isMCA st))"
proof (cases isMCA)
  case False
  assume "flagged st"
  from updateProductsList_keeps [OF this, of up account] False
  show ?thesis by (simp add: snd_updateOffersData_merchant)
next
  case True
  assume fl: "flagged st"
  have "snd (updateOffersData up account True st) =
        snd (Pages (AccountsListCall (accId account)) (updateAccountTables up)
              (accountsList up (accId account)) st)"
    by (simp add: updateOffersData_def split: prod.splits outcome.splits)
  then show ?thesis
    using True Pages_keeps [of "updateAccountTables up" st "AccountsListCall (accId account)"
        "accountsList up (accId account)"] updateAccountTables_keeps fl
    by simp
qed
section \<open>The reconciler at concrete passes\<close>

text \<open>
  C1. The claim is that no sequence of upserts leaves two rows with the same offer id.
  The code at a concrete input: the page that lists the one offer A is reconciled
  twice, starting from the empty table. The second time \<open>GetOffer\<close> finds A,
  \<open>UpdateOffer\<close> fails, and \<open>AddOffer\<close> inserts A again: the table holds two rows with the
  offer id A.
\<close>

theorem same_offer_twice_two_rows:
  "storedIds (snd (updateProducts [product ''A'' ''Red Shoes'']
              (snd (updateProducts [product ''A'' ''Red Shoes''] emptyTable)))) = [''A'', ''A''] \<and>
   distinct (storedIds (snd (updateProducts [product ''A'' ''Red Shoes'']
              (snd (updateProducts [product ''A'' ''Red Shoes''] emptyTable))))) = False"
  by code_simp

text \<open>
  C2. The claim is that a pass over A and B, on a table that holds A, B and C, leaves
  exactly A and B. The code at that input, the table having been filled by the
  reconciler itself and the catalog now listing A and B on one page: every row has its
  flag set from the insert on and nothing clears it, so the sweep deletes nothing; C
  stays, and A and B are there twice.
\<close>

theorem sweep_keeps_unlisted_offer:
  "storedIds tableABC = [''A'', ''B'', ''C''] \<and>
   map updated (rows tableABC) = [True, True, True] \<and>
   fst (updateOffersData (catalog pageAB) merchant False tableABC) = Ok \<and>
   sweeps (snd (updateOffersData (catalog pageAB) merchant False tableABC)) =
     Suc (sweeps tableABC) \<and>
   storedIds (snd (updateOffersData (catalog pageAB) merchant False tableABC)) =
     [''A'', ''B'', ''C'', ''A'', ''B'']"
  by code_simp

text \<open>
  C3. The claim is that a pass sweeps exactly once, after all pages. The code at a
  catalog of two pages, X1 on the first and X2 on the second, starting from the empty
  table: the sweep is sent at the end of each page, twice in the pass, and the first
  time before the second page has been requested.
\<close>

theorem sweep_after_every_page:
  "trace (snd (updateOffersData (catalog twoPages) merchant False emptyTable)) =
     [Call (ProductsListCall 7), Exec db_get, Exec db_insert, Exec db_delete,
      Call (ProductsListCall 7), Exec db_get, Exec db_insert, Exec db_delete] \<and>
   sweeps (snd (updateOffersData (catalog twoPages) merchant False emptyTable)) = 2"
  by code_simp

text \<open>
  C4. The claim is that a pass in which an upsert fails performs no sweep at any point.
  The code at the catalog of two pages, on a server that refuses the fifth statement,
  which is the insert of X2: the page callback returns the error of the insert without
  sweeping, but the sweep at the end of the first page has been sent before. The row
  of X1 is still in the table.
\<close>

theorem sweep_before_failed_page:
  "fst (Pages (ProductsListCall 7) updateProducts twoPages faultyTable) =
     Failed (StoreError (CouldNotExecute BackendFault)) \<and>
   trace (snd (updateOffersData (catalog twoPages) merchant False faultyTable)) =
     [Call (ProductsListCall 7), Exec db_get, Exec db_insert, Exec db_delete,
      Call (ProductsListCall 7), Exec db_get, Exec db_insert] \<and>
   sweeps (snd (updateOffersData (catalog twoPages) merchant False faultyTable)) = 1 \<and>
   storedIds (snd (updateOffersData (catalog twoPages) merchant False faultyTable)) = [''X1'']"
  by code_simp

text \<open>
  C5. The claim is that a failed upsert, on the update path as on the insert path, stops
  the page and is returned. The code at a page listing A and B, on a table that holds
  A: \<open>GetOffer\<close> finds A, so the update path is taken; \<open>UpdateOffer\<close> returns an error; the
  page is processed to its end all the same, A is inserted again, B is inserted, and
  the callback returns nil.
\<close>

theorem update_error_dropped:
  "isl (fst (GetOffer ''A'' tableA)) = False \<and>
   fst (UpdateOffer (offerOf (product ''A'' ''Red Shoes'') \<lparr>pValue = ''9.99'', pCurrency = ''USD''\<rparr>)
          (snd (GetOffer ''A'' tableA))) = Some (CouldNotExecute (ArgCount 8 7)) \<and>
   fst (updateProducts [product ''A'' ''Red Shoes'', product ''B'' ''Blue Hat''] tableA) = Ok \<and>
   storedIds (snd (updateProducts [product ''A'' ''Red Shoes'', product ''B'' ''Blue Hat''] tableA)) =
     [''A'', ''A'', ''B'']"
  by code_simp

section \<open>The sync driver\<close>

text \<open>
  C8, as stated, fails. The identity has access to the merchant account 7 and every
  step on the host goes through, but with the id zero \<open>RunUpdate\<close> ends the process at
  its own check, "valid merchant_id should be provided": nothing has been asked of the
  upstream source, and no account is selected.
\<close>

theorem RunUpdate_zero_id_stops:
  "authinfoDo (catalog pageAB) = Inr [\<lparr>MerchantId = 7, AggregatorId = 0\<rparr>] \<and>
   trace emptyTable = [] \<and>
   RunUpdate readyHost (catalog pageAB) 0 [] emptyTable = (Fatal NoMerchantId, emptyTable)"
  by (simp add: RunUpdate_def readyHost_def catalog_def emptyTable_def)

text \<open>
  C8, amended. With no account id supplied (the id zero), \<open>RunUpdate\<close> ends the process
  with a fatal error before any request to the upstream source, whatever the host and
  the catalog: the error of \<open>user.Current\<close>, or else "valid merchant_id should be
  provided". \<open>retrieve\<close> asks the upstream source for the accounts the identity has
  access to, and ends the process with a fatal error when there are none; so does a
  run of \<open>RunUpdate\<close>, whatever the id.
\<close>

theorem RunUpdate_needs_merchant_id:
  "RunUpdate h up 0 logFile st =
     (Fatal (if userCurrent h = None then UserCurrentFailed else NoMerchantId), st) \<and>
   (authinfoDo up = Inr [] \<longrightarrow>
      retrieve up i st = (Fatal NoAccounts, st\<lparr>trace := trace st @ [Call AuthinfoCall]\<rparr>) \<and>
      (\<exists>f. fst (RunUpdate h up i logFile st) = Fatal f))"
  by (simp add: RunUpdate_def retrieve_def)

theorem RunUpdate_needs_merchant_id_witness:
  "authinfoDo noAccounts = Inr [] \<and>
   retrieve noAccounts 7 emptyTable =
     (Fatal NoAccounts, \<lparr>rows = [], nextId = 1, faults = [], trace = [Call AuthinfoCall]\<rparr>) \<and>
   RunUpdate readyHost noAccounts 0 [] emptyTable = (Fatal NoMerchantId, emptyTable)"
proof -
  have h: "authinfoDo noAccounts = Inr []" by (simp add: noAccounts_def)
  show ?thesis
    using h RunUpdate_needs_merchant_id [of readyHost noAccounts "[]" emptyTable 7]
    by (simp add: emptyTable_def readyHost_def)
qed

section \<open>Schema bootstrap\<close>













end
